theory Spec2Isabelle
  imports Complex_Main
begin

section \<open>JavaScript numbers\<close>

text \<open>
  A JavaScript number is modelled as a real number, one of the two infinities, or NaN.
  Rounding to double or single precision, overflow of finite arithmetic and the sign of
  zero are not modelled; a \<open>Float32Array\<close> is a list of such numbers.
\<close>

datatype jsnum = Val real | PosInf | NegInf | NaN

type_synonym float32array = "jsnum list"

fun js_neg :: "jsnum \<Rightarrow> jsnum" where
  "js_neg (Val a) = Val (- a)"
| "js_neg PosInf = NegInf"
| "js_neg NegInf = PosInf"
| "js_neg NaN = NaN"

fun js_add :: "jsnum \<Rightarrow> jsnum \<Rightarrow> jsnum" where
  "js_add (Val a) (Val b) = Val (a + b)"
| "js_add NaN _ = NaN"
| "js_add _ NaN = NaN"
| "js_add PosInf NegInf = NaN"
| "js_add NegInf PosInf = NaN"
| "js_add PosInf _ = PosInf"
| "js_add _ PosInf = PosInf"
| "js_add NegInf _ = NegInf"
| "js_add _ NegInf = NegInf"

definition js_sub :: "jsnum \<Rightarrow> jsnum \<Rightarrow> jsnum" where
  "js_sub a b = js_add a (js_neg b)"

text \<open>The sign of a non-NaN number: \<open>True\<close> for negative.\<close>

fun js_negative :: "jsnum \<Rightarrow> bool" where
  "js_negative (Val a) = (a < 0)"
| "js_negative NegInf = True"
| "js_negative _ = False"

definition js_inf :: "bool \<Rightarrow> jsnum" where
  "js_inf negative = (if negative then NegInf else PosInf)"

fun js_mul :: "jsnum \<Rightarrow> jsnum \<Rightarrow> jsnum" where
  "js_mul (Val a) (Val b) = Val (a * b)"
| "js_mul NaN _ = NaN"
| "js_mul _ NaN = NaN"
| "js_mul (Val a) b = (if a = 0 then NaN else js_inf ((a < 0) \<noteq> js_negative b))"
| "js_mul a (Val b) = (if b = 0 then NaN else js_inf (js_negative a \<noteq> (b < 0)))"
| "js_mul a b = js_inf (js_negative a \<noteq> js_negative b)"

fun js_div :: "jsnum \<Rightarrow> jsnum \<Rightarrow> jsnum" where
  "js_div (Val a) (Val b) =
     (if b \<noteq> 0 then Val (a / b) else if a = 0 then NaN else js_inf (a < 0))"
| "js_div NaN _ = NaN"
| "js_div _ NaN = NaN"
| "js_div (Val a) _ = Val 0"
| "js_div a (Val b) = js_inf (js_negative a \<noteq> (b < 0))"
| "js_div _ _ = NaN"

text \<open>Comparison with \<open><\<close>: false as soon as one side is NaN.\<close>

fun js_lt :: "jsnum \<Rightarrow> jsnum \<Rightarrow> bool" where
  "js_lt (Val a) (Val b) = (a < b)"
| "js_lt NaN _ = False"
| "js_lt _ NaN = False"
| "js_lt NegInf b = (b \<noteq> NegInf)"
| "js_lt a PosInf = (a \<noteq> PosInf)"
| "js_lt _ _ = False"

text \<open>\<open>Math.min\<close> and \<open>Math.max\<close> return NaN as soon as one argument is NaN.\<close>

fun Math_min :: "jsnum \<Rightarrow> jsnum \<Rightarrow> jsnum" where
  "Math_min NaN _ = NaN"
| "Math_min _ NaN = NaN"
| "Math_min a b = (if js_lt b a then b else a)"

fun Math_max :: "jsnum \<Rightarrow> jsnum \<Rightarrow> jsnum" where
  "Math_max NaN _ = NaN"
| "Math_max _ NaN = NaN"
| "Math_max a b = (if js_lt a b then b else a)"

fun Math_sqrt :: "jsnum \<Rightarrow> jsnum" where
  "Math_sqrt (Val a) = (if a < 0 then NaN else Val (sqrt a))"
| "Math_sqrt PosInf = PosInf"
| "Math_sqrt _ = NaN"

fun Math_sin :: "jsnum \<Rightarrow> jsnum" where
  "Math_sin (Val a) = Val (sin a)"
| "Math_sin _ = NaN"

fun Math_cos :: "jsnum \<Rightarrow> jsnum" where
  "Math_cos (Val a) = Val (cos a)"
| "Math_cos _ = NaN"

text \<open>A sample lies in the closed unit interval; NaN and the infinities do not.\<close>

fun in_unit :: "jsnum \<Rightarrow> bool" where
  "in_unit (Val a) = (0 \<le> a \<and> a \<le> 1)"
| "in_unit _ = False"

section \<open>Normalisation of elevation samples\<close>

text \<open>
  \<open>MCPElevationClient.normalizeElevationData\<close> (mcp\_client.js). The argument is
  \<open>None\<close> for \<open>null\<close> or \<open>undefined\<close>; the result \<open>None\<close> is \<open>null\<close>. The
  loop starts at index 1 with both bounds set to the first sample.
\<close>

definition mcp_minmax :: "float32array \<Rightarrow> jsnum \<times> jsnum" where
  "mcp_minmax elevationData =
     fold (\<lambda>e (minElevation, maxElevation).
             (if js_lt e minElevation then e else minElevation,
              if js_lt maxElevation e then e else maxElevation))
          (tl elevationData) (hd elevationData, hd elevationData)"

definition mcp_normalizeElevationData :: "float32array option \<Rightarrow> float32array option" where
  "mcp_normalizeElevationData arg =
     (case arg of
        None \<Rightarrow> None
      | Some elevationData \<Rightarrow>
          if length elevationData = 0 then None
          else
            let (minElevation, maxElevation) = mcp_minmax elevationData;
                elevationRange = js_sub maxElevation minElevation
            in if elevationRange = Val 0
               then Some (replicate (length elevationData) (Val (1/2)))
               else Some (map (\<lambda>e. js_div (js_sub e minElevation) elevationRange)
                              elevationData))"



section \<open>The resort table and the cache (js/topography.js)\<close>

text \<open>
  An entry of \<open>resortCoordinates\<close>. The \<open>name\<close> field is only interpolated into log
  messages and is left out. The five objects are pairwise different, so the identity
  test \<open>===\<close> on them is equality of the records.
\<close>

record resort =
  lat :: real
  lon :: real

definition resortCoordinates :: "(string \<times> resort) list" where
  "resortCoordinates =
     [(''chamonix'', \<lparr>lat = 459237 / 10000, lon = 68694 / 10000\<rparr>),
      (''whistler'', \<lparr>lat = 501163 / 10000, lon = - (1229574 / 10000)\<rparr>),
      (''zermatt'', \<lparr>lat = 460207 / 10000, lon = 77491 / 10000\<rparr>),
      (''stanton'', \<lparr>lat = 471333 / 10000, lon = 102667 / 10000\<rparr>),
      (''valdisere'', \<lparr>lat = 454489 / 10000, lon = 69797 / 10000\<rparr>)]"

text \<open>
  \<open>this.resortCoordinates[resortKey]\<close> is a property read on a plain object: a key of
  the literal yields its resort, a name that \<open>Object.prototype\<close> defines yields an
  inherited member (a function or the prototype, truthy), any other key \<open>undefined\<close>.
\<close>

datatype property = Found resort | Inherited | Undefined

definition Object_prototype_keys :: "string list" where
  "Object_prototype_keys =
     [''constructor'', ''hasOwnProperty'', ''isPrototypeOf'', ''propertyIsEnumerable'',
      ''toLocaleString'', ''toString'', ''valueOf'', ''__proto__'', ''__defineGetter__'',
      ''__defineSetter__'', ''__lookupGetter__'', ''__lookupSetter__'']"

definition resortCoordinates_get :: "string \<Rightarrow> property" where
  "resortCoordinates_get resortKey =
     (case map_of resortCoordinates resortKey of
        Some r \<Rightarrow> Found r
      | None \<Rightarrow> if resortKey \<in> set Object_prototype_keys then Inherited else Undefined)"

record profile =
  baseElevation :: real
  peakElevation :: real
  steepness :: real

definition resortProfiles :: "(string \<times> profile) list" where
  "resortProfiles =
     [(''chamonix'', \<lparr>baseElevation = 1035, peakElevation = 3842, steepness = 8 / 10\<rparr>),
      (''whistler'', \<lparr>baseElevation = 652, peakElevation = 2182, steepness = 6 / 10\<rparr>),
      (''zermatt'', \<lparr>baseElevation = 1608, peakElevation = 3883, steepness = 9 / 10\<rparr>),
      (''stanton'', \<lparr>baseElevation = 1304, peakElevation = 2811, steepness = 85 / 100\<rparr>),
      (''valdisere'', \<lparr>baseElevation = 1550, peakElevation = 3456, steepness = 7 / 10\<rparr>)]"

definition default_profile :: profile where
  "default_profile = \<lparr>baseElevation = 1035, peakElevation = 3842, steepness = 8 / 10\<rparr>"

text \<open>
  \<open>resortProfiles[Object.keys(this.resortCoordinates).find(key =>
  this.resortCoordinates[key] === resort)] || resortProfiles.chamonix\<close>.
\<close>

definition profile_of :: "property \<Rightarrow> profile" where
  "profile_of resort =
     (case find (\<lambda>key. resortCoordinates_get key = resort) (map fst resortCoordinates) of
        Some key \<Rightarrow> (case map_of resortProfiles key of Some p \<Rightarrow> p | None \<Rightarrow> default_profile)
      | None \<Rightarrow> default_profile)"

section \<open>Synthetic terrain (js/topography.js)\<close>

text \<open>
  The body of the two nested loops of \<open>generateSyntheticElevationData\<close> for the cell
  \<open>(x, z)\<close>; \<open>random\<close> is what \<open>Math.random()\<close> returns for this cell.
\<close>

definition cell_height :: "profile \<Rightarrow> int \<Rightarrow> nat \<Rightarrow> nat \<Rightarrow> real \<Rightarrow> jsnum" where
  "cell_height profile resolution x z random =
     (let nx = js_sub (js_mul (js_div (Val (real x)) (Val (real_of_int (resolution - 1))))
                              (Val 2)) (Val 1);
          nz = js_sub (js_mul (js_div (Val (real z)) (Val (real_of_int (resolution - 1))))
                              (Val 2)) (Val 1);
          distanceFromCenter = Math_sqrt (js_add (js_mul nx nx) (js_mul nz nz));
          height0 = Math_max (Val 0)
                      (js_sub (Val 1) (js_mul distanceFromCenter (Val (steepness profile))));
          height1 = js_add height0
                      (js_mul (js_mul (Math_sin (js_mul nx (Val 3))) (Math_cos (js_mul nz (Val 3))))
                              (Val (1 / 10)));
          height2 = js_add height1 (js_sub (js_mul (Val random) (Val (1 / 10))) (Val (5 / 100)))
      in Math_max (Val 0) (Math_min (Val 1) height2))"

text \<open>
  \<open>generateSyntheticElevationData(resort, resolution, areaSize)\<close>. The array is
  allocated with \<open>resolution * resolution\<close> zeros and written cell by cell, \<open>z\<close> outer
  and \<open>x\<close> inner, at index \<open>z * resolution + x\<close>. \<open>random i\<close> is the result of the
  \<open>i\<close>-th call of \<open>Math.random()\<close> made by this run, one call per cell in loop order.
  \<open>resolution\<close> and \<open>areaSize\<close> are integers here; the engine's limit on the length
  of an array is not modelled.
\<close>

definition generateSyntheticElevationData ::
  "(nat \<Rightarrow> real) \<Rightarrow> property \<Rightarrow> int \<Rightarrow> int \<Rightarrow> float32array" where
  "generateSyntheticElevationData random resort resolution areaSize =
     (let profile = profile_of resort; n = nat resolution
      in fold (\<lambda>z elevationData.
                 fold (\<lambda>x elevationData.
                         elevationData[z * n + x :=
                           cell_height profile resolution x z (random (z * n + x))])
                      [0..<n] elevationData)
              [0..<n] (replicate (nat (resolution * resolution)) (Val 0)))"

section \<open>The cache and the loader (js/topography.js)\<close>

text \<open>
  A JavaScript \<open>Map\<close> keeps its entries in insertion order: an association list with
  at most one entry per key. \<open>set\<close> replaces the value of a present key in place and
  appends a new key at the end. The class has no other operation on the cache than
  \<open>has\<close>, \<open>get\<close>, \<open>set\<close> and \<open>clear\<close>.
\<close>

type_synonym cache = "(string \<times> float32array) list"

definition Map_has :: "cache \<Rightarrow> string \<Rightarrow> bool" where
  "Map_has m k = (map_of m k \<noteq> None)"

definition Map_get :: "cache \<Rightarrow> string \<Rightarrow> float32array option" where
  "Map_get m k = map_of m k"

fun Map_set :: "cache \<Rightarrow> string \<Rightarrow> float32array \<Rightarrow> cache" where
  "Map_set [] k v = [(k, v)]"
| "Map_set ((k', v') # m) k v = (if k' = k then (k, v) # m else (k', v') # Map_set m k v)"

definition Map_size :: "cache \<Rightarrow> nat" where
  "Map_size m = length m"

text \<open>The decimal form of an integer, as a template literal prints it.\<close>

fun digits :: "nat \<Rightarrow> string" where
  "digits n = (if n < 10 then [''0123456789'' ! n]
               else digits (n div 10) @ [''0123456789'' ! (n mod 10)])"

definition Number_toString :: "int \<Rightarrow> string" where
  "Number_toString i = (if i < 0 then ''-'' @ digits (nat (- i)) else digits (nat i))"

definition cacheKey :: "string \<Rightarrow> int \<Rightarrow> int \<Rightarrow> string" where
  "cacheKey resortKey resolution areaSize =
     resortKey @ ''_'' @ Number_toString resolution @ ''_'' @ Number_toString areaSize"

datatype error = Error string

text \<open>
  The loader's fields: the cache, and whether \<open>mcpClient\<close> has been created.
  \<open>mcp_calls\<close> is not a field of the class: it records the arguments of every call of
  \<open>mcpClient.fetchElevationData\<close>, as a mock of the client would.
\<close>

record loader =
  cache :: cache
  mcpClient :: bool
  mcp_calls :: "(string \<times> int \<times> int) list"

definition new_loader :: loader where
  "new_loader = \<lparr>cache = [], mcpClient = False, mcp_calls = []\<rparr>"

text \<open>
  What the client does during one call of the loader: whether \<open>new MCPElevationClient()\<close>
  throws, whether \<open>initialize()\<close> rejects, and what \<open>fetchElevationData\<close> settles to
  (\<open>Inl\<close> a rejection, \<open>Inr None\<close> for \<open>null\<close>).
\<close>

record client_env =
  ctor_throws :: bool
  initialize_rejects :: bool
  fetch_result :: "error + float32array option"

text \<open>
  The \<open>try\<close> block of \<open>TopographyDataLoader.fetchElevationData\<close>: \<open>Some\<close> the data
  it is about to return, \<open>None\<close> when it falls through (a \<open>null\<close> result or a caught
  exception).
\<close>

definition mcp_attempt ::
  "client_env \<Rightarrow> loader \<Rightarrow> string \<Rightarrow> int \<Rightarrow> int \<Rightarrow> float32array option \<times> loader" where
  "mcp_attempt env st resortKey resolution areaSize =
     (if \<not> mcpClient st \<and> ctor_throws env then (None, st)
      else
        let st1 = st\<lparr>mcpClient := True\<rparr>
        in if \<not> mcpClient st \<and> initialize_rejects env then (None, st1)
           else
             let st2 = st1\<lparr>mcp_calls := mcp_calls st1 @ [(resortKey, resolution, areaSize)]\<rparr>
             in case fetch_result env of
                  Inl e \<Rightarrow> (None, st2)
                | Inr None \<Rightarrow> (None, st2)
                | Inr (Some realElevationData) \<Rightarrow> (Some realElevationData, st2))"

text \<open>
  \<open>TopographyDataLoader.fetchElevationData(resortKey, resolution, areaSize)\<close>: \<open>Inl\<close> is
  a rejected promise, \<open>Inr\<close> the value it resolves to. \<open>cache.has\<close> followed by
  \<open>cache.get\<close> is one lookup; every stored value is an array.
\<close>

definition topo_fetchElevationData ::
  "client_env \<Rightarrow> (nat \<Rightarrow> real) \<Rightarrow> loader \<Rightarrow> string \<Rightarrow> int \<Rightarrow> int
     \<Rightarrow> (error + float32array) \<times> loader" where
  "topo_fetchElevationData env random st resortKey resolution areaSize =
     (let key = cacheKey resortKey resolution areaSize
      in case Map_get (cache st) key of
           Some cached \<Rightarrow> (Inr cached, st)
         | None \<Rightarrow>
             (case resortCoordinates_get resortKey of
                Undefined \<Rightarrow> (Inl (Error (''Unknown resort: '' @ resortKey)), st)
              | resort \<Rightarrow>
                  (case mcp_attempt env st resortKey resolution areaSize of
                     (Some realElevationData, st1) \<Rightarrow>
                       (Inr realElevationData,
                        st1\<lparr>cache := Map_set (cache st1) key realElevationData\<rparr>)
                   | (None, st1) \<Rightarrow>
                       let elevationData =
                             generateSyntheticElevationData random resort resolution areaSize
                       in (Inr elevationData,
                           st1\<lparr>cache := Map_set (cache st1) key elevationData\<rparr>))))"

definition clearCache :: "loader \<Rightarrow> loader" where
  "clearCache st = st\<lparr>cache := []\<rparr>"

section \<open>Values exchanged with the server (mcp\_client.js)\<close>

text \<open>
  A JavaScript value as \<open>JSON.parse\<close> and \<open>response.json()\<close> produce them, with
  \<open>undefined\<close> added for a missing property. An object is the list of its own
  properties.
\<close>

datatype json =
    JUndefined
  | JNull
  | JBool bool
  | JNum real
  | JStr string
  | JArr "json list"
  | JObj "(string \<times> json) list"

fun truthy :: "json \<Rightarrow> bool" where
  "truthy JUndefined = False"
| "truthy JNull = False"
| "truthy (JBool b) = b"
| "truthy (JNum x) = (x \<noteq> 0)"
| "truthy (JStr s) = (s \<noteq> [])"
| "truthy (JArr vs) = True"
| "truthy (JObj kvs) = True"

fun nullish :: "json \<Rightarrow> bool" where
  "nullish JUndefined = True"
| "nullish JNull = True"
| "nullish _ = False"

text \<open>
  \<open>v?.k\<close> for the property names the client reads (none of them an index, \<open>length\<close>
  or a name of a prototype): the property of an object, \<open>undefined\<close> on anything else.
  The plain \<open>v.k\<close> is the same on a value that is not nullish and throws on one that is.
\<close>

fun js_get :: "json \<Rightarrow> string \<Rightarrow> json" where
  "js_get (JObj kvs) k = (case map_of kvs k of Some v \<Rightarrow> v | None \<Rightarrow> JUndefined)"
| "js_get _ k = JUndefined"

text \<open>\<open>v?.[0]\<close>.\<close>

fun js_index0 :: "json \<Rightarrow> json" where
  "js_index0 (JArr []) = JUndefined"
| "js_index0 (JArr (v # vs)) = v"
| "js_index0 (JStr []) = JUndefined"
| "js_index0 (JStr (c # cs)) = JStr [c]"
| "js_index0 (JObj kvs) = (case map_of kvs ''0'' of Some v \<Rightarrow> v | None \<Rightarrow> JUndefined)"
| "js_index0 _ = JUndefined"

text \<open>
  \<open>new Float32Array(v)\<close> for an array \<open>v\<close>, element by element. Of the conversions
  to a number only those of numbers, \<open>null\<close>, booleans and \<open>undefined\<close> are exact here;
  strings and nested values become NaN, and a value that is not an array gives the empty
  array.
\<close>

fun ToNumber :: "json \<Rightarrow> jsnum" where
  "ToNumber (JNum x) = Val x"
| "ToNumber JNull = Val 0"
| "ToNumber (JBool b) = Val (if b then 1 else 0)"
| "ToNumber _ = NaN"

fun Float32Array_from :: "json \<Rightarrow> float32array" where
  "Float32Array_from (JArr vs) = map ToNumber vs"
| "Float32Array_from _ = []"

text \<open>
  How one \<open>fetch\<close> of the client ends: the promise rejects, or it resolves to a response
  with its \<open>ok\<close> flag, its status and the value \<open>response.json()\<close> resolves to
  (\<open>None\<close> when that rejects).
\<close>

datatype http_result = Rejected | Response bool nat "json option"

section \<open>The client (mcp\_client.js)\<close>

text \<open>The members that the class body of \<open>MCPElevationClient\<close> declares.\<close>

definition MCPElevationClient_members :: "string list" where
  "MCPElevationClient_members =
     [''constructor'', ''initialize'', ''listResources'', ''readResource'', ''callTool'',
      ''bridgeToHttpServer'', ''pollProgress'', ''showProgress'', ''hideProgress'',
      ''handleResortInfo'', ''fetchElevationData'', ''normalizeElevationData'',
      ''getAvailableResorts'', ''cleanup'']"

text \<open>
  \<open>handleResortInfo(resortKey)\<close>. \<open>parse\<close> is \<open>JSON.parse\<close> (\<open>None\<close> when it
  throws) and \<open>info\<close> how the \<open>get_resort_info\<close> request ends. Every exception is
  caught inside and turned into \<open>null\<close>. The call \<open>this.generateSyntheticElevation(resortInfo)\<close>
  throws a TypeError unless the class has such a member; \<open>gen\<close> stands for what the
  member would return.
\<close>

definition handleResortInfo ::
  "(json \<Rightarrow> json option) \<Rightarrow> (json \<Rightarrow> json) \<Rightarrow> http_result \<Rightarrow> string \<Rightarrow> json" where
  "handleResortInfo parse gen info resortKey =
     (case info of
        Rejected \<Rightarrow> JNull
      | Response ok status body \<Rightarrow>
          if \<not> ok then JNull
          else case body of
            None \<Rightarrow> JNull
          | Some jsonRpcResponse \<Rightarrow>
              if nullish jsonRpcResponse then JNull
              else if truthy (js_get jsonRpcResponse ''error'') then JNull
              else
                let result = js_get jsonRpcResponse ''result'';
                    first = js_index0 (js_get result ''content'')
                in if truthy first
                   then (case parse (js_get first ''text'') of
                           None \<Rightarrow> JNull
                         | Some resortInfo \<Rightarrow>
                             if ''generateSyntheticElevation'' \<in> set MCPElevationClient_members
                             then
                               (if nullish resortInfo then JNull
                                else JObj
                                  [(''elevationData'', gen resortInfo),
                                   (''metadata'', JObj
                                      [(''resort'', JStr resortKey),
                                       (''source'', JStr ''Synthetic (Resort Info Fallback)''),
                                       (''base_elevation'', js_get resortInfo ''base_elevation''),
                                       (''peak_elevation'', js_get resortInfo ''peak_elevation'')])])
                             else JNull)
                   else JNull)"

text \<open>
  The \<open>try\<close> block of \<open>bridgeToHttpServer\<close> from the point where the POST settles.
  The first component is the value the block returns (\<open>JNull\<close> for \<open>null\<close>), or
  \<open>None\<close> when it throws; the second tells whether the assignment
  \<open>this._progressAbort[requestId] = true\<close> has been executed.
\<close>

definition bridge_try ::
  "(json \<Rightarrow> json option) \<Rightarrow> string \<Rightarrow> http_result \<Rightarrow> json option \<times> bool" where
  "bridge_try parse requestId post =
     (case post of
        Rejected \<Rightarrow> (None, False)
      | Response ok status body \<Rightarrow>
          if \<not> ok then (None, False)
          else case body of
            None \<Rightarrow> (None, False)
          | Some jsonRpcResponse \<Rightarrow>
              if nullish jsonRpcResponse then (None, False)
              else if truthy (js_get jsonRpcResponse ''error'') then (None, False)
              else
                let result = js_get jsonRpcResponse ''result'';
                    first = js_index0 (js_get result ''content'')
                in if truthy first
                   then (case parse (js_get first ''text'') of
                           None \<Rightarrow> (None, False)
                         | Some elevationData \<Rightarrow>
                             if truthy (js_get elevationData ''elevation_data'')
                             then (Some (JObj
                                     [(''elevationData'', js_get elevationData ''elevation_data''),
                                      (''metadata'', JObj
                                         [(''resort'', js_get elevationData ''resort''),
                                          (''resolution'', js_get elevationData ''resolution''),
                                          (''area_size'', js_get elevationData ''area_size''),
                                          (''source'', js_get elevationData ''source''),
                                          (''request_id'',
                                             if truthy (js_get elevationData ''request_id'')
                                             then js_get elevationData ''request_id''
                                             else JStr requestId)])]), True)
                             else (Some JNull, True))
                   else (Some JNull, False))"

text \<open>
  The progress poll loop of \<open>pollProgress(requestId)\<close>, cut at its suspension points:
  \<open>Scheduled c\<close> while a timer for the next \<open>poll\<close> is pending, \<open>InFlight c\<close> while
  the status query is awaited, \<open>Resolved\<close> once the promise of the loop has resolved;
  \<open>c\<close> is \<open>pollCount\<close>.
\<close>

datatype poller = Scheduled nat | InFlight nat | Resolved

text \<open>
  The client: the field \<open>isInitialized\<close>, the table \<open>_progressAbort\<close> (empty while
  the field is still \<open>undefined\<close>), and the poll loops that exist, by request id.
  \<open>queries\<close> is not a field: it records the request id of every status query sent to
  the progress endpoint.
\<close>

record client =
  isInitialized :: bool
  progressAbort :: "string \<rightharpoonup> bool"
  pollers :: "string \<rightharpoonup> poller"
  queries :: "string list"

definition new_client :: client where
  "new_client = \<lparr>isInitialized = False, progressAbort = Map.empty, pollers = Map.empty,
                  queries = []\<rparr>"

definition maxPolls :: nat where
  "maxPolls = 600"

text \<open>\<open>this._progressAbort?.[requestId]\<close> as a condition.\<close>

definition aborted :: "client \<Rightarrow> string \<Rightarrow> bool" where
  "aborted c requestId = (progressAbort c requestId = Some True)"

text \<open>\<open>this._progressAbort[requestId] = true\<close>.\<close>

definition set_abort :: "string \<Rightarrow> client \<Rightarrow> client" where
  "set_abort requestId c = c\<lparr>progressAbort := (progressAbort c)(requestId \<mapsto> True)\<rparr>"

text \<open>\<open>pollProgress(requestId)\<close>: the loop is created with its first timer pending.\<close>

definition pollProgress :: "string \<Rightarrow> client \<Rightarrow> client" where
  "pollProgress requestId c = c\<lparr>pollers := (pollers c)(requestId \<mapsto> Scheduled 0)\<rparr>"

text \<open>
  A timer of the loop fires and \<open>poll\<close> runs up to its first \<open>await\<close>: with the abort
  flag set the loop resolves, otherwise the status query is sent.
\<close>

definition poll_timer :: "string \<Rightarrow> client \<Rightarrow> client" where
  "poll_timer requestId c =
     (case pollers c requestId of
        Some (Scheduled pollCount) \<Rightarrow>
          if aborted c requestId
          then c\<lparr>pollers := (pollers c)(requestId \<mapsto> Resolved)\<rparr>
          else c\<lparr>pollers := (pollers c)(requestId \<mapsto> InFlight pollCount),
                 queries := queries c @ [requestId]\<rparr>
      | _ \<Rightarrow> c)"

text \<open>
  How a status query ends: an ok response whose \<open>progress\<close> is a number, a response
  that is not ok, or an exception inside \<open>poll\<close> (the query or \<open>response.json()\<close>
  rejects, or \<open>showProgress\<close> throws).
\<close>

datatype progress_reply = ProgressOk real | ProgressNotOk | ProgressThrows

text \<open>The query of the loop settles and \<open>poll\<close> runs to its end.\<close>

definition poll_reply :: "string \<Rightarrow> progress_reply \<Rightarrow> client \<Rightarrow> client" where
  "poll_reply requestId reply c =
     (case pollers c requestId of
        Some (InFlight pollCount) \<Rightarrow>
          let again =
                (case reply of
                   ProgressOk progress \<Rightarrow>
                     progress < 100 \<and> pollCount < maxPolls \<and> \<not> aborted c requestId
                 | ProgressNotOk \<Rightarrow> pollCount < maxPolls \<and> \<not> aborted c requestId
                 | ProgressThrows \<Rightarrow> pollCount < maxPolls \<and> \<not> aborted c requestId)
          in c\<lparr>pollers := (pollers c)(requestId \<mapsto>
                   (if again then Scheduled (pollCount + 1) else Resolved))\<rparr>
      | _ \<Rightarrow> c)"

text \<open>The steps of the poll loops, in the order the event loop runs them.\<close>

datatype event = Timer string | Reply string progress_reply

fun step :: "event \<Rightarrow> client \<Rightarrow> client" where
  "step (Timer requestId) c = poll_timer requestId c"
| "step (Reply requestId reply) c = poll_reply requestId reply c"

definition run :: "event list \<Rightarrow> client \<Rightarrow> client" where
  "run es c = fold step es c"

text \<open>
  \<open>bridgeToHttpServer\<close> in two halves. \<open>bridge_begin\<close> runs up to the \<open>await\<close> of
  the POST: it registers the request id with the flag \<open>false\<close> and starts the poll
  loop. \<open>bridge_finish\<close> runs from the point where the POST settles: the \<open>try\<close>
  block, and on an exception the \<open>catch\<close> block with the resort-info fallback. The
  request id comes from the clock and \<open>Math.random()\<close> and is a parameter.
\<close>

definition bridge_begin :: "string \<Rightarrow> client \<Rightarrow> client" where
  "bridge_begin requestId c =
     pollProgress requestId (c\<lparr>progressAbort := (progressAbort c)(requestId \<mapsto> False)\<rparr>)"

definition bridge_finish ::
  "(json \<Rightarrow> json option) \<Rightarrow> (json \<Rightarrow> json) \<Rightarrow> string \<Rightarrow> http_result \<Rightarrow> http_result
     \<Rightarrow> string \<Rightarrow> client \<Rightarrow> json \<times> client" where
  "bridge_finish parse gen requestId post info resortKey c =
     (case bridge_try parse requestId post of
        (Some v, stop) \<Rightarrow> (v, if stop then set_abort requestId c else c)
      | (None, stop) \<Rightarrow>
          (handleResortInfo parse gen info (if resortKey = [] then ''whistler'' else resortKey),
           if stop then set_abort requestId c else c))"

text \<open>
  \<open>MCPElevationClient.fetchElevationData\<close>, with the poll loop taking the steps \<open>es\<close>
  while the POST is awaited. \<open>initialize\<close> catches its exceptions; \<open>callTool\<close>
  passes the result of \<open>bridgeToHttpServer\<close> on.
\<close>

definition mcp_fetchElevationData ::
  "(json \<Rightarrow> json option) \<Rightarrow> (json \<Rightarrow> json) \<Rightarrow> string \<Rightarrow> event list \<Rightarrow> http_result
     \<Rightarrow> http_result \<Rightarrow> client \<Rightarrow> string \<Rightarrow> int \<Rightarrow> int
     \<Rightarrow> (error + float32array option) \<times> client" where
  "mcp_fetchElevationData parse gen requestId es post info c resortKey resolution areaSize =
     (let c1 = c\<lparr>isInitialized := True\<rparr>;
          c2 = run es (bridge_begin requestId c1);
          (result, c3) = bridge_finish parse gen requestId post info resortKey c2
      in if truthy (js_get result ''elevation_data'')
         then (Inr (mcp_normalizeElevationData
                      (Some (Float32Array_from (js_get result ''elevation_data'')))), c3)
         else (Inr None, c3))"

section \<open>The loader on top of the client\<close>

text \<open>
  The loader creates the client with \<open>new MCPElevationClient()\<close>, whose constructor
  and \<open>initialize\<close> do not throw, and calls its \<open>fetchElevationData\<close>. The result
  of that call does not depend on the client's state \<open>c\<close>, which is therefore not kept
  in the loader.
\<close>

definition client_behaviour ::
  "(json \<Rightarrow> json option) \<Rightarrow> (json \<Rightarrow> json) \<Rightarrow> string \<Rightarrow> event list \<Rightarrow> http_result
     \<Rightarrow> http_result \<Rightarrow> client \<Rightarrow> string \<Rightarrow> int \<Rightarrow> int \<Rightarrow> client_env" where
  "client_behaviour parse gen requestId es post info c resortKey resolution areaSize =
     \<lparr>ctor_throws = False, initialize_rejects = False,
      fetch_result =
        fst (mcp_fetchElevationData parse gen requestId es post info c
               resortKey resolution areaSize)\<rparr>"

definition fetch_pipeline ::
  "(json \<Rightarrow> json option) \<Rightarrow> (json \<Rightarrow> json) \<Rightarrow> string \<Rightarrow> event list \<Rightarrow> http_result
     \<Rightarrow> http_result \<Rightarrow> client \<Rightarrow> (nat \<Rightarrow> real) \<Rightarrow> loader \<Rightarrow> string \<Rightarrow> int \<Rightarrow> int
     \<Rightarrow> (error + float32array) \<times> loader" where
  "fetch_pipeline parse gen requestId es post info c random st resortKey resolution areaSize =
     topo_fetchElevationData
       (client_behaviour parse gen requestId es post info c resortKey resolution areaSize)
       random st resortKey resolution areaSize"

section \<open>Notions used to state the properties\<close>

text \<open>
  The part of a cell's height that does not depend on \<open>Math.random()\<close>: the radial
  peak around the centre of the grid plus the sine and cosine ripple, over the reals.
\<close>

definition shape :: "profile \<Rightarrow> int \<Rightarrow> nat \<Rightarrow> nat \<Rightarrow> real" where
  "shape p resolution x z =
     (let nx = real x / real_of_int (resolution - 1) * 2 - 1;
          nz = real z / real_of_int (resolution - 1) * 2 - 1
      in max 0 (1 - sqrt (nx * nx + nz * nz) * steepness p)
         + sin (nx * 3) * cos (nz * 3) * (1 / 10))"

definition clamp01 :: "real \<Rightarrow> real" where
  "clamp01 t = max 0 (min 1 t)"



text \<open>The number of status queries sent so far for a request id.\<close>

definition status_queries :: "string \<Rightarrow> client \<Rightarrow> nat" where
  "status_queries requestId c = length (filter (\<lambda>q. q = requestId) (queries c))"

text \<open>A request id has no active poll loop: none was started, or it has resolved.\<close>

definition idle :: "client \<Rightarrow> string \<Rightarrow> bool" where
  "idle c requestId = (pollers c requestId = None \<or> pollers c requestId = Some Resolved)"

text \<open>
  The bookkeeping of one poll loop: how its state relates to the number \<open>q\<close> of status
  queries sent for its request id.
\<close>

fun poll_inv :: "poller option \<Rightarrow> nat \<Rightarrow> bool" where
  "poll_inv (Some (Scheduled k)) q = (q = k \<and> k \<le> maxPolls)"
| "poll_inv (Some (InFlight k)) q = (q = k + 1 \<and> k \<le> maxPolls)"
| "poll_inv (Some Resolved) q = (q \<le> maxPolls + 1)"
| "poll_inv None q = (q = 0)"

text \<open>
  Example exchanges. \<open>rpc_result text\<close> is an ok response whose JSON-RPC result has
  one content item with the given text. The texts are abbreviated to \<open>grid\<close> and
  \<open>info\<close>; \<open>example_parse\<close> is \<open>JSON.parse\<close> on them: the first stands for the
  JSON text of a grid of four samples, the second for that of a resort description.
\<close>

definition example_payload :: json where
  "example_payload =
     JObj [(''elevation_data'', JArr [JNum 1000, JNum 1500, JNum 2000, JNum 1500]),
           (''resort'', JStr ''chamonix''), (''resolution'', JNum 2), (''area_size'', JNum 2000),
           (''source'', JStr ''srtm''), (''request_id'', JStr ''req_1'')]"

definition example_info :: json where
  "example_info =
     JObj [(''name'', JStr ''Chamonix-Mont-Blanc''), (''base_elevation'', JNum 1035),
           (''peak_elevation'', JNum 3842)]"

definition example_parse :: "json \<Rightarrow> json option" where
  "example_parse v =
     (if v = JStr ''grid'' then Some example_payload
      else if v = JStr ''info'' then Some example_info
      else None)"

definition rpc_result :: "string \<Rightarrow> http_result" where
  "rpc_result text =
     Response True 200
       (Some (JObj [(''jsonrpc'', JStr ''2.0''), (''id'', JNum 1),
                    (''result'', JObj [(''content'',
                        JArr [JObj [(''type'', JStr ''text''), (''text'', JStr text)]])])]))"

section \<open>Facts about the normalisers\<close>








section \<open>Facts about the synthetic terrain\<close>

lemma Math_max_Val [simp]: "Math_max (Val a) (Val b) = Val (max a b)"
  by (simp add: max_def)

lemma Math_min_Val [simp]: "Math_min (Val a) (Val b) = Val (min a b)"
  by (simp add: min_def)

lemma js_sub_Val [simp]: "js_sub (Val a) (Val b) = Val (a - b)"
  by (simp add: js_sub_def)

lemma cell_height_res1: "cell_height p 1 x z r = NaN"
  by (cases "x = 0"; cases "z = 0") (simp_all add: cell_height_def Let_def js_inf_def js_sub_def)

lemma cell_height_Val:
  assumes "resolution \<noteq> 1"
  shows "cell_height p resolution x z r = Val (clamp01 (shape p resolution x z + (r * (1 / 10) - 5 / 100)))"
proof -
  define d where "d = real_of_int (resolution - 1)"
  have d: "d \<noteq> 0" using assms by (simp add: d_def)
  have sq: "\<not> (a * a + b * b < 0)" for a b :: real
    by (simp add: not_less)
  show ?thesis
    unfolding cell_height_def shape_def clamp01_def d_def [symmetric] Let_def
    using d by (simp add: sq)
qed


lemma clamp01_unit: "0 \<le> clamp01 a \<and> clamp01 a \<le> 1"
  by (simp add: clamp01_def)

lemma fold_update_length:
  "length (fold (\<lambda>x a. a[k x := F x]) X a) = length a"
  by (induction X arbitrary: a) simp_all

lemma fold_update_rel:
  assumes "\<And>x. R (F x) (G x)" and "list_all2 R a b"
  shows "list_all2 R (fold (\<lambda>x a. a[k x := F x]) X a) (fold (\<lambda>x b. b[k x := G x]) X b)"
  using assms(2)
proof (induction X arbitrary: a b)
  case Nil
  then show ?case by simp
next
  case (Cons x X)
  then show ?case by (simp add: assms(1) list_all2_update_cong)
qed

lemma fold_fold_update_rel:
  assumes "\<And>z x. R (F z x) (G z x)" and "list_all2 R a b"
  shows "list_all2 R (fold (\<lambda>z a. fold (\<lambda>x a. a[k z x := F z x]) X a) Z a)
                     (fold (\<lambda>z b. fold (\<lambda>x b. b[k z x := G z x]) X b) Z b)"
  using assms(2)
proof (induction Z arbitrary: a b)
  case Nil
  then show ?case by simp
next
  case (Cons z Z)
  have "list_all2 R (fold (\<lambda>x a. a[k z x := F z x]) X a) (fold (\<lambda>x b. b[k z x := G z x]) X b)"
    using assms(1) Cons.prems by (rule fold_update_rel)
  then show ?case by (simp add: Cons.IH)
qed

lemma fold_fold_update_length:
  "length (fold (\<lambda>z a. fold (\<lambda>x a. a[k z x := F z x]) X a) Z a) = length a"
  by (induction Z arbitrary: a) (simp_all add: fold_update_length)

lemma generate_length:
  "length (generateSyntheticElevationData random resort resolution areaSize) = nat (resolution * resolution)"
  by (simp add: generateSyntheticElevationData_def Let_def fold_fold_update_length)

lemma generate_rel:
  assumes "\<And>z x. R (cell_height (profile_of resort) resolution x z (r1 (z * nat resolution + x)))
                    (cell_height (profile_of resort) resolution x z (r2 (z * nat resolution + x)))"
    and "R (Val 0) (Val 0)"
  shows "list_all2 R (generateSyntheticElevationData r1 resort resolution a1)
                     (generateSyntheticElevationData r2 resort resolution a2)"
  unfolding generateSyntheticElevationData_def Let_def
  by (rule fold_fold_update_rel) (simp_all add: assms list_all2_conv_all_nth)

lemma generate_res1: "generateSyntheticElevationData random resort 1 areaSize = [NaN]"
  by (simp add: generateSyntheticElevationData_def Let_def cell_height_res1)

lemma generate_neg: "generateSyntheticElevationData random resort (-1) areaSize = [Val 0]"
  by (simp add: generateSyntheticElevationData_def Let_def)

lemma generate_unit:
  assumes "resolution \<noteq> 1"
  shows "list_all in_unit (generateSyntheticElevationData random resort resolution areaSize)"
proof -
  have "list_all2 (\<lambda>a b. in_unit a) (generateSyntheticElevationData random resort resolution areaSize)
     (generateSyntheticElevationData random resort resolution areaSize)"
    by (rule generate_rel) (simp_all add: cell_height_Val [OF assms] clamp01_unit)
  then show ?thesis
    by (simp add: list_all2_conv_all_nth list_all_length)
qed

section \<open>Facts about the client, the cache and the loader\<close>

lemma handleResortInfo_null: "handleResortInfo parse gen info resortKey = JNull"
  by (simp add: handleResortInfo_def MCPElevationClient_members_def Let_def
           split: http_result.splits option.splits)

lemma bridge_try_no_field:
  "fst (bridge_try parse requestId post) = Some v \<Longrightarrow> js_get v ''elevation_data'' = JUndefined"
  by (auto simp: bridge_try_def Let_def split: http_result.splits option.splits if_splits)

lemma bridge_finish_no_field:
  "js_get (fst (bridge_finish parse gen requestId post info resortKey c)) ''elevation_data'' = JUndefined"
proof (cases "bridge_try parse requestId post")
  case (Pair r stop)
  show ?thesis
  proof (cases r)
    case None
    then show ?thesis using Pair by (simp add: bridge_finish_def handleResortInfo_null)
  next
    case (Some v)
    then have "js_get v ''elevation_data'' = JUndefined"
      using Pair bridge_try_no_field [of parse requestId post v] by simp
    then show ?thesis using Pair Some by (simp add: bridge_finish_def)
  qed
qed

lemma mcp_fetch_null:
  "fst (mcp_fetchElevationData parse gen requestId es post info c resortKey resolution areaSize) = Inr None"
proof -
  define c2 where "c2 = run es (bridge_begin requestId (c\<lparr>isInitialized := True\<rparr>))"
  obtain result c3 where bf: "bridge_finish parse gen requestId post info resortKey c2 = (result, c3)"
    by (cases "bridge_finish parse gen requestId post info resortKey c2")
  have "js_get result ''elevation_data'' = JUndefined"
    using bridge_finish_no_field [of parse gen requestId post info resortKey c2] bf by simp
  then show ?thesis
    by (simp add: mcp_fetchElevationData_def Let_def c2_def [symmetric] bf)
qed



lemma Map_size_set: "Map_size (Map_set m k v) = (if Map_has m k then Map_size m else Map_size m + 1)"
  by (induction m) (auto simp: Map_size_def Map_has_def)

lemma topo_fetch_hit:
  "Map_get (cache st) (cacheKey k r a) = Some g \<Longrightarrow>
   topo_fetchElevationData env random st k r a = (Inr g, st)"
  by (simp add: topo_fetchElevationData_def)



section \<open>Facts about the poll loop\<close>

lemma step_progressAbort: "progressAbort (step e c) = progressAbort c"
  by (cases e) (simp_all add: poll_timer_def poll_reply_def Let_def split: option.splits poller.splits)

lemma step_aborted: "aborted (step e c) requestId = aborted c requestId"
  by (simp add: aborted_def step_progressAbort)

lemma step_queries_aborted:
  "aborted c requestId \<Longrightarrow> status_queries requestId (step e c) = status_queries requestId c"
  by (cases e) (auto simp: status_queries_def poll_timer_def poll_reply_def Let_def split: option.splits poller.splits)

lemma run_queries_aborted:
  "aborted c requestId \<Longrightarrow> status_queries requestId (run es c) = status_queries requestId c"
proof (induction es arbitrary: c)
  case Nil
  then show ?case by (simp add: run_def)
next
  case (Cons e es)
  have "aborted (step e c) requestId" using Cons.prems by (simp add: step_aborted)
  then have "status_queries requestId (run es (step e c)) = status_queries requestId (step e c)"
    by (rule Cons.IH)
  then show ?case using Cons.prems by (simp add: run_def step_queries_aborted)
qed

lemma aborted_set_abort: "aborted (set_abort requestId c) requestId"
  by (simp add: aborted_def set_abort_def)

lemma set_abort_idem: "set_abort requestId (set_abort requestId c) = set_abort requestId c"
  by (simp add: set_abort_def)

lemma timer_resolves:
  "pollers c requestId = Some (Scheduled n) \<Longrightarrow>
   pollers (step (Timer requestId) (set_abort requestId c)) requestId = Some Resolved"
  by (simp add: poll_timer_def set_abort_def aborted_def)

lemma reply_resolves:
  "pollers c requestId = Some (InFlight n) \<Longrightarrow>
   pollers (step (Reply requestId reply) (set_abort requestId c)) requestId = Some Resolved"
  by (simp add: poll_reply_def set_abort_def aborted_def Let_def split: progress_reply.splits)

lemma step_idle: "idle c requestId \<Longrightarrow> idle (step e c) requestId"
  by (cases e) (auto simp: idle_def poll_timer_def poll_reply_def Let_def split: option.splits poller.splits)

lemma aborted_set_abort_other:
  "r \<noteq> requestId \<Longrightarrow> aborted (set_abort requestId c) r = aborted c r"
  by (simp add: aborted_def set_abort_def)

lemma step_set_abort_commute:
  assumes "idle c requestId"
  shows "step e (set_abort requestId c) = set_abort requestId (step e c)"
proof (cases e)
  case (Timer r)
  show ?thesis
  proof (cases "r = requestId")
    case True
    then show ?thesis using assms Timer
      by (auto simp: idle_def poll_timer_def set_abort_def)
  next
    case False
    then have "aborted (set_abort requestId c) r = aborted c r"
      by (rule aborted_set_abort_other)
    then show ?thesis using Timer False
      by (auto simp: poll_timer_def set_abort_def aborted_def split: option.splits poller.splits)
  qed
next
  case (Reply r reply)
  show ?thesis
  proof (cases "r = requestId")
    case True
    then show ?thesis using assms Reply
      by (auto simp: idle_def poll_reply_def set_abort_def)
  next
    case False
    then have "aborted (set_abort requestId c) r = aborted c r"
      by (rule aborted_set_abort_other)
    then show ?thesis using Reply False
      by (auto simp: poll_reply_def set_abort_def aborted_def Let_def
               split: option.splits poller.splits progress_reply.splits)
  qed
qed

lemma run_set_abort_commute:
  "idle c requestId \<Longrightarrow> run es (set_abort requestId c) = set_abort requestId (run es c)"
proof (induction es arbitrary: c)
  case Nil
  then show ?case by (simp add: run_def)
next
  case (Cons e es)
  have "idle (step e c) requestId" using Cons.prems by (rule step_idle)
  then have "run es (set_abort requestId (step e c)) = set_abort requestId (run es (step e c))"
    by (rule Cons.IH)
  then show ?case using Cons.prems by (simp add: run_def step_set_abort_commute)
qed

lemma cacheKey_chamonix_2: "cacheKey ''chamonix'' 2 2000 = ''chamonix_2_2000''"
  by (simp add: cacheKey_def Number_toString_def)

lemma set_abort_fields:
  "pollers (set_abort requestId c) = pollers c" "queries (set_abort requestId c) = queries c"
  by (simp_all add: set_abort_def)

section \<open>Further facts about the loader and the generator\<close>

lemma pipeline_is_synthetic:
  assumes "Map_get (cache st) (cacheKey resortKey resolution areaSize) = None"
    and "resortCoordinates_get resortKey \<noteq> Undefined"
  shows "fetch_pipeline parse gen requestId es post info c random st resortKey resolution areaSize
         = (let g = generateSyntheticElevationData random (resortCoordinates_get resortKey)
                      resolution areaSize
            in (Inr g,
                st\<lparr>mcpClient := True,
                   mcp_calls := mcp_calls st @ [(resortKey, resolution, areaSize)],
                   cache := Map_set (cache st) (cacheKey resortKey resolution areaSize) g\<rparr>))"
  using assms
  by (simp add: fetch_pipeline_def topo_fetchElevationData_def client_behaviour_def
        mcp_fetch_null mcp_attempt_def Let_def split: property.splits)

lemma chamonix_found:
  "resortCoordinates_get ''chamonix'' = Found \<lparr>lat = 459237 / 10000, lon = 68694 / 10000\<rparr>"
  by (simp add: resortCoordinates_get_def resortCoordinates_def)

lemma cacheKey_chamonix_minus1: "cacheKey ''chamonix'' (-1) 2000 = ''chamonix_-1_2000''"
  by (simp add: cacheKey_def Number_toString_def)

lemma cacheKey_chamonix_1: "cacheKey ''chamonix'' 1 2000 = ''chamonix_1_2000''"
  by (simp add: cacheKey_def Number_toString_def)

lemma pipeline_cache:
  assumes "resortCoordinates_get resortKey \<noteq> Undefined"
  shows "cache (snd (fetch_pipeline parse gen requestId es post info c random st
                       resortKey resolution areaSize))
         = (case Map_get (cache st) (cacheKey resortKey resolution areaSize) of
              Some g \<Rightarrow> cache st
            | None \<Rightarrow> Map_set (cache st) (cacheKey resortKey resolution areaSize)
                       (generateSyntheticElevationData random (resortCoordinates_get resortKey)
                          resolution areaSize))"
proof (cases "Map_get (cache st) (cacheKey resortKey resolution areaSize)")
  case None
  then show ?thesis using assms by (simp add: pipeline_is_synthetic Let_def)
next
  case (Some g)
  then show ?thesis by (simp add: fetch_pipeline_def topo_fetch_hit)
qed

lemma chamonix_known: "resortCoordinates_get ''chamonix'' \<noteq> Undefined"
  by (simp add: chamonix_found)

lemma Map_set_keys:
  "k \<notin> fst ` set m \<Longrightarrow> map fst (Map_set m k v) = map fst m @ [k]"
  by (induction m) auto

lemma Map_get_None: "Map_get m k = None \<longleftrightarrow> k \<notin> fst ` set m"
  by (simp add: Map_get_def map_of_eq_None_iff)

lemma fold_fetch_keys:
  assumes "resortCoordinates_get resortKey \<noteq> Undefined"
    and "distinct (map (\<lambda>r. cacheKey resortKey r areaSize) rs)"
    and "\<forall>r \<in> set rs. cacheKey resortKey r areaSize \<notin> fst ` set (cache st)"
  shows "map fst (cache (fold (\<lambda>resolution st.
              snd (fetch_pipeline parse gen requestId es post info c random st
                     resortKey resolution areaSize)) rs st))
         = map fst (cache st) @ map (\<lambda>r. cacheKey resortKey r areaSize) rs"
  using assms(2,3)
proof (induction rs arbitrary: st)
  case Nil
  then show ?case by simp
next
  case (Cons r rs)
  define st' where "st' = snd (fetch_pipeline parse gen requestId es post info c random st
                     resortKey r areaSize)"
  have miss: "cacheKey resortKey r areaSize \<notin> fst ` set (cache st)"
    using Cons.prems(2) by simp
  then have keys: "map fst (cache st') = map fst (cache st) @ [cacheKey resortKey r areaSize]"
    unfolding st'_def
    by (simp add: pipeline_cache [OF assms(1)] Map_get_None [symmetric] Map_set_keys [OF miss])
  have d: "distinct (map (\<lambda>r. cacheKey resortKey r areaSize) rs)"
    using Cons.prems(1) by simp
  have fresh: "\<forall>q \<in> set rs. cacheKey resortKey q areaSize \<notin> fst ` set (cache st')"
  proof
    fix q assume q: "q \<in> set rs"
    have "cacheKey resortKey q areaSize \<notin> fst ` set (cache st)"
      using Cons.prems(2) q by simp
    moreover have "cacheKey resortKey q areaSize \<noteq> cacheKey resortKey r areaSize"
    proof
      assume same: "cacheKey resortKey q areaSize = cacheKey resortKey r areaSize"
      have "cacheKey resortKey q areaSize \<in> (\<lambda>r. cacheKey resortKey r areaSize) ` set rs"
        using q by (rule imageI)
      then show False using Cons.prems(1) same by simp
    qed
    moreover have "fst ` set (cache st') = set (map fst (cache st'))" by simp
    ultimately show "cacheKey resortKey q areaSize \<notin> fst ` set (cache st')"
      unfolding keys by simp
  qed
  have "map fst (cache (fold (\<lambda>resolution st.
              snd (fetch_pipeline parse gen requestId es post info c random st
                     resortKey resolution areaSize)) rs st'))
         = map fst (cache st') @ map (\<lambda>r. cacheKey resortKey r areaSize) rs"
    using d fresh by (rule Cons.IH)
  then show ?case by (simp add: st'_def [symmetric] keys)
qed






lemma row_nth:
  assumes "i < length a"
  shows "fold (\<lambda>x a. a[z * n + x := F x]) [0..<m] a ! i
         = (if z * n \<le> i \<and> i < z * n + m then F (i - z * n) else a ! i)"
proof (induction m)
  case 0
  then show ?case by auto
next
  case (Suc m)
  have len: "i < length (fold (\<lambda>x a. a[z * n + x := F x]) [0..<m] a)"
    using assms by (simp add: fold_update_length)
  show ?case
  proof (cases "i = z * n + m")
    case True
    then show ?thesis using len by simp
  next
    case False
    then show ?thesis using Suc by (auto simp: nth_list_update)
  qed
qed

lemma rows_nth:
  assumes "i < length a"
  shows "fold (\<lambda>z a. fold (\<lambda>x a. a[z * n + x := F z x]) [0..<n] a) [0..<k] a ! i
         = (if i < k * n then F (i div n) (i mod n) else a ! i)"
proof (induction k)
  case 0
  then show ?case by simp
next
  case (Suc k)
  define b where "b = fold (\<lambda>z a. fold (\<lambda>x a. a[z * n + x := F z x]) [0..<n] a) [0..<k] a"
  have len: "i < length b"
    using assms by (simp add: b_def fold_fold_update_length)
  have row: "fold (\<lambda>x a. a[k * n + x := F k x]) [0..<n] b ! i
         = (if k * n \<le> i \<and> i < k * n + n then F k (i - k * n) else b ! i)"
    using len by (rule row_nth)
  show ?case
  proof (cases "k * n \<le> i \<and> i < k * n + n")
    case True
    then have "0 < n" by auto
    have d: "i div n = k"
      using True by (metis add.commute div_nat_eqI mult.commute mult_Suc)
    have m: "i mod n = i - k * n"
      using d by (metis minus_mult_div_eq_mod mult.commute)
    show ?thesis using True row d m by (simp add: b_def [symmetric])
  next
    case False
    then show ?thesis using row Suc by (auto simp: b_def [symmetric])
  qed
qed

lemma generate_closed_form:
  assumes "0 \<le> resolution"
  shows "generateSyntheticElevationData random resort resolution areaSize
         = map (\<lambda>i. cell_height (profile_of resort) resolution
                        (i mod nat resolution) (i div nat resolution) (random i))
               [0..<nat resolution * nat resolution]"
proof (rule nth_equalityI)
  have n: "nat (resolution * resolution) = nat resolution * nat resolution"
    using assms by (simp add: nat_mult_distrib)
  show l: "length (generateSyntheticElevationData random resort resolution areaSize)
        = length (map (\<lambda>i. cell_height (profile_of resort) resolution
                        (i mod nat resolution) (i div nat resolution) (random i))
               [0..<nat resolution * nat resolution])"
    by (simp add: generate_length n)
  fix i assume "i < length (generateSyntheticElevationData random resort resolution areaSize)"
  then have i: "i < nat resolution * nat resolution" by (simp add: generate_length n)
  then have i': "i < length (replicate (nat (resolution * resolution)) (Val 0))" by (simp add: n)
  show "generateSyntheticElevationData random resort resolution areaSize ! i
        = map (\<lambda>i. cell_height (profile_of resort) resolution
                        (i mod nat resolution) (i div nat resolution) (random i))
               [0..<nat resolution * nat resolution] ! i"
    unfolding generateSyntheticElevationData_def Let_def
    using i by (simp add: rows_nth [OF i'])
qed




lemma step_poll_inv:
  assumes "poll_inv (pollers c requestId) (status_queries requestId c)"
  shows "poll_inv (pollers (step e c) requestId) (status_queries requestId (step e c))"
proof (cases e)
  case (Timer r)
  show ?thesis
  proof (cases "r = requestId")
    case True
    then show ?thesis using assms Timer
      by (auto simp: poll_timer_def status_queries_def split: option.splits poller.splits)
  next
    case False
    then show ?thesis using assms Timer
      by (auto simp: poll_timer_def status_queries_def split: option.splits poller.splits)
  qed
next
  case (Reply r reply)
  show ?thesis
  proof (cases "r = requestId")
    case True
    then show ?thesis using assms Reply
      by (auto simp: poll_reply_def status_queries_def Let_def
               split: option.splits poller.splits progress_reply.splits)
  next
    case False
    then show ?thesis using assms Reply
      by (auto simp: poll_reply_def status_queries_def Let_def split: option.splits poller.splits)
  qed
qed

lemma run_poll_inv:
  "poll_inv (pollers c requestId) (status_queries requestId c) \<Longrightarrow>
   poll_inv (pollers (run es c) requestId) (status_queries requestId (run es c))"
proof (induction es arbitrary: c)
  case Nil
  then show ?case by (simp add: run_def)
next
  case (Cons e es)
  have "poll_inv (pollers (step e c) requestId) (status_queries requestId (step e c))"
    using Cons.prems by (rule step_poll_inv)
  then have "poll_inv (pollers (run es (step e c)) requestId)
               (status_queries requestId (run es (step e c)))"
    by (rule Cons.IH)
  then show ?case by (simp add: run_def)
qed

lemma poll_inv_bound: "poll_inv p q \<Longrightarrow> q \<le> maxPolls + 1"
  by (cases "(p, q)" rule: poll_inv.cases) auto

section \<open>The claims\<close>



text \<open>
  C7. Once the abort flag of a request id is set, the poll loop of that request sends no
  further status query, whatever steps the event loop takes afterwards: a pending timer
  resolves the loop when it fires, and a query that is in flight resolves the loop when it
  settles. Setting the flag twice is the same as setting it once, and for a request id
  without an active poll loop it changes neither the poll loops nor the queries that any
  later run sends. (Request ids are fresh: no later request registers the same id again.)
\<close>

theorem abort_stops_polling:
  "status_queries requestId (run es (set_abort requestId c)) = status_queries requestId c
   \<and> (pollers c requestId = Some (Scheduled n) \<longrightarrow>
        pollers (step (Timer requestId) (set_abort requestId c)) requestId = Some Resolved)
   \<and> (pollers c requestId = Some (InFlight n) \<longrightarrow>
        pollers (step (Reply requestId reply) (set_abort requestId c)) requestId = Some Resolved)
   \<and> set_abort requestId (set_abort requestId c) = set_abort requestId c
   \<and> (idle c requestId \<longrightarrow>
        pollers (run es (set_abort requestId c)) = pollers (run es c)
        \<and> queries (run es (set_abort requestId c)) = queries (run es c))"
proof (intro conjI impI)
  have "status_queries requestId (run es (set_abort requestId c))
          = status_queries requestId (set_abort requestId c)"
    using aborted_set_abort by (rule run_queries_aborted)
  then show "status_queries requestId (run es (set_abort requestId c)) = status_queries requestId c"
    by (simp add: status_queries_def set_abort_fields)
next
  assume "pollers c requestId = Some (Scheduled n)"
  then show "pollers (step (Timer requestId) (set_abort requestId c)) requestId = Some Resolved"
    by (rule timer_resolves)
next
  assume "pollers c requestId = Some (InFlight n)"
  then show "pollers (step (Reply requestId reply) (set_abort requestId c)) requestId = Some Resolved"
    by (rule reply_resolves)
next
  show "set_abort requestId (set_abort requestId c) = set_abort requestId c"
    by (rule set_abort_idem)
next
  assume i: "idle c requestId"
  then show "pollers (run es (set_abort requestId c)) = pollers (run es c)"
    by (simp add: run_set_abort_commute set_abort_fields)
  from i show "queries (run es (set_abort requestId c)) = queries (run es c)"
    by (simp add: run_set_abort_commute set_abort_fields)
qed

theorem abort_stops_polling_witness:
  "pollers (step (Timer ''req_1'') (set_abort ''req_1'' (bridge_begin ''req_1'' new_client))) ''req_1''
     = Some Resolved
   \<and> pollers (step (Reply ''req_1'' (ProgressOk 50))
        (set_abort ''req_1'' (step (Timer ''req_1'') (bridge_begin ''req_1'' new_client)))) ''req_1''
     = Some Resolved
   \<and> queries (run [Timer ''req_1'', Reply ''req_1'' ProgressNotOk] (set_abort ''req_1'' new_client))
     = queries (run [Timer ''req_1'', Reply ''req_1'' ProgressNotOk] new_client)
   \<and> status_queries ''req_1''
        (run [Timer ''req_1'', Reply ''req_1'' (ProgressOk 50), Timer ''req_1'']
           (set_abort ''req_1'' (bridge_begin ''req_1'' new_client))) = 0"
proof -
  have s: "pollers (bridge_begin ''req_1'' new_client) ''req_1'' = Some (Scheduled 0)"
    by (simp add: bridge_begin_def pollProgress_def)
  have f: "pollers (step (Timer ''req_1'') (bridge_begin ''req_1'' new_client)) ''req_1''
             = Some (InFlight 0)"
    by (simp add: bridge_begin_def pollProgress_def poll_timer_def aborted_def new_client_def)
  have i: "idle new_client ''req_1''"
    by (simp add: idle_def new_client_def)
  have q: "status_queries ''req_1'' (bridge_begin ''req_1'' new_client) = 0"
    by (simp add: status_queries_def bridge_begin_def pollProgress_def new_client_def)
  show ?thesis
    using abort_stops_polling [of "''req_1''" "[Timer ''req_1'', Reply ''req_1'' (ProgressOk 50), Timer ''req_1'']"
            "bridge_begin ''req_1'' new_client" 0] s q
          abort_stops_polling [of "''req_1''" "[]"
            "step (Timer ''req_1'') (bridge_begin ''req_1'' new_client)" 0 "ProgressOk 50"] f
          abort_stops_polling [of "''req_1''" "[Timer ''req_1'', Reply ''req_1'' ProgressNotOk]" new_client] i
    by simp
qed


text \<open>
  C6. The claim fails on the error path. The POST of request \<open>req_1\<close> ends with HTTP
  status 500 after one progress poll (50 percent), and the resort-info fallback fails
  too. \<open>bridgeToHttpServer\<close> returns \<open>null\<close>, but the abort flag of \<open>req_1\<close> is
  still \<open>false\<close> and the poll loop still has a timer pending: when it fires, a second
  status query is sent for a request that has terminated. Only the success path sets the
  flag.
\<close>

theorem polling_continues_after_failed_fetch:
  "(let c1 = run [Timer ''req_1'', Reply ''req_1'' (ProgressOk 50)]
                 (bridge_begin ''req_1'' new_client);
        (result, c2) = bridge_finish parse gen ''req_1'' (Response False 500 None) Rejected
                         ''chamonix'' c1;
        c3 = run [Timer ''req_1''] c2
    in result = JNull
       \<and> \<not> aborted c2 ''req_1''
       \<and> pollers c2 ''req_1'' = Some (Scheduled 1)
       \<and> queries c2 = [''req_1'']
       \<and> pollers c3 ''req_1'' = Some (InFlight 1)
       \<and> queries c3 = [''req_1'', ''req_1''])"
  by (simp add: Let_def run_def bridge_begin_def pollProgress_def new_client_def poll_timer_def
        poll_reply_def aborted_def maxPolls_def bridge_finish_def bridge_try_def
        handleResortInfo_null)

text \<open>
  C1. The claim fails at resolution 1, a valid input. On a fresh loader the request
  \<open>('chamonix', 1, 2000)\<close> resolves, whatever the server answers, to a grid of one
  sample, and that sample is NaN: with \<open>resolution - 1 = 0\<close> the normalised
  coordinates are \<open>0 / 0\<close>, and \<open>Math.max\<close> and \<open>Math.min\<close> pass NaN through the
  final clamp. NaN does not lie in the unit interval. The grid is cached as well.
\<close>

theorem resolution_one_yields_NaN:
  "fetch_pipeline parse gen requestId es post info c random new_loader ''chamonix'' 1 2000
     = (Inr [NaN],
        \<lparr>cache = [(''chamonix_1_2000'', [NaN])], mcpClient = True,
         mcp_calls = [(''chamonix'', 1, 2000)]\<rparr>)
   \<and> \<not> list_all in_unit [NaN]"
  by (simp add: pipeline_is_synthetic chamonix_found cacheKey_chamonix_1 new_loader_def Map_get_def
        Let_def generate_res1)

text \<open>
  A request for a resort key that the table resolves, at a resolution above 1 and with no
  entry in the cache, resolves to a grid of \<open>resolution * resolution\<close> samples that
  all lie in the unit interval, whatever the server answers.
\<close>

theorem valid_request_grid:
  assumes "resortCoordinates_get resortKey \<noteq> Undefined"
    and "1 < resolution"
    and "Map_get (cache st) (cacheKey resortKey resolution areaSize) = None"
  shows "\<exists>g. fst (fetch_pipeline parse gen requestId es post info c random st
                   resortKey resolution areaSize) = Inr g
             \<and> length g = nat (resolution * resolution) \<and> list_all in_unit g"
proof -
  have "resolution \<noteq> 1" using assms(2) by simp
  then have "list_all in_unit
     (generateSyntheticElevationData random (resortCoordinates_get resortKey) resolution areaSize)"
    by (rule generate_unit)
  then show ?thesis
    using assms(1,3) by (simp add: pipeline_is_synthetic Let_def generate_length)
qed

theorem valid_request_grid_witness:
  "\<exists>g. fst (fetch_pipeline (\<lambda>v. None) (\<lambda>v. JNull) ''req_1'' [] Rejected Rejected new_client
               (\<lambda>i. 0) new_loader ''zermatt'' 64 2000) = Inr g
        \<and> length g = 4096 \<and> list_all in_unit g"
proof -
  have a: "resortCoordinates_get ''zermatt'' \<noteq> Undefined"
    by (simp add: resortCoordinates_get_def resortCoordinates_def)
  have b: "(1::int) < 64" by simp
  have c: "Map_get (cache new_loader) (cacheKey ''zermatt'' 64 2000) = None"
    by (simp add: new_loader_def Map_get_def)
  show ?thesis
    using valid_request_grid [OF a b c, of "\<lambda>v. None" "\<lambda>v. JNull" "''req_1''" "[]" Rejected Rejected
        new_client "\<lambda>i. 0"]
    by simp
qed

text \<open>
  C2. The claim fails on the success path. The server answers the POST of request
  \<open>req_1\<close> with a well-formed result whose payload carries four samples.
  \<open>bridgeToHttpServer\<close> returns them under the property \<open>elevationData\<close>; normalised
  they would be \<open>[0, 0.5, 1, 0.5]\<close>. \<open>MCPElevationClient.fetchElevationData\<close> reads
  the property \<open>elevation_data\<close> of that result, finds \<open>undefined\<close> and returns
  \<open>null\<close>; the loader then generates, returns and caches a synthetic grid.
\<close>

theorem remote_grid_is_dropped:
  "fst (bridge_finish example_parse gen ''req_1'' (rpc_result ''grid'') info ''chamonix'' c)
     = JObj [(''elevationData'', JArr [JNum 1000, JNum 1500, JNum 2000, JNum 1500]),
             (''metadata'', JObj [(''resort'', JStr ''chamonix''), (''resolution'', JNum 2),
                                  (''area_size'', JNum 2000), (''source'', JStr ''srtm''),
                                  (''request_id'', JStr ''req_1'')])]
   \<and> mcp_normalizeElevationData
        (Some (Float32Array_from (JArr [JNum 1000, JNum 1500, JNum 2000, JNum 1500])))
     = Some [Val 0, Val (1 / 2), Val 1, Val (1 / 2)]
   \<and> fst (mcp_fetchElevationData example_parse gen ''req_1'' es (rpc_result ''grid'') info c
            ''chamonix'' 2 2000) = Inr None
   \<and> fetch_pipeline example_parse gen ''req_1'' es (rpc_result ''grid'') info c random new_loader
        ''chamonix'' 2 2000
     = (Inr (generateSyntheticElevationData random (resortCoordinates_get ''chamonix'') 2 2000),
        \<lparr>cache = [(''chamonix_2_2000'',
                    generateSyntheticElevationData random (resortCoordinates_get ''chamonix'') 2 2000)],
         mcpClient = True, mcp_calls = [(''chamonix'', 2, 2000)]\<rparr>)"
proof (intro conjI)
  show "fst (bridge_finish example_parse gen ''req_1'' (rpc_result ''grid'') info ''chamonix'' c)
     = JObj [(''elevationData'', JArr [JNum 1000, JNum 1500, JNum 2000, JNum 1500]),
             (''metadata'', JObj [(''resort'', JStr ''chamonix''), (''resolution'', JNum 2),
                                  (''area_size'', JNum 2000), (''source'', JStr ''srtm''),
                                  (''request_id'', JStr ''req_1'')])]"
    by (simp add: bridge_finish_def bridge_try_def rpc_result_def example_parse_def
          example_payload_def Let_def)
  show "mcp_normalizeElevationData
        (Some (Float32Array_from (JArr [JNum 1000, JNum 1500, JNum 2000, JNum 1500])))
     = Some [Val 0, Val (1 / 2), Val 1, Val (1 / 2)]"
    by (simp add: mcp_normalizeElevationData_def mcp_minmax_def)
  show "fst (mcp_fetchElevationData example_parse gen ''req_1'' es (rpc_result ''grid'') info c
            ''chamonix'' 2 2000) = Inr None"
    by (rule mcp_fetch_null)
  show "fetch_pipeline example_parse gen ''req_1'' es (rpc_result ''grid'') info c random new_loader
        ''chamonix'' 2 2000
     = (Inr (generateSyntheticElevationData random (resortCoordinates_get ''chamonix'') 2 2000),
        \<lparr>cache = [(''chamonix_2_2000'',
                    generateSyntheticElevationData random (resortCoordinates_get ''chamonix'') 2 2000)],
         mcpClient = True, mcp_calls = [(''chamonix'', 2, 2000)]\<rparr>)"
    by (simp add: pipeline_is_synthetic chamonix_found cacheKey_chamonix_2 new_loader_def Map_get_def Let_def)
qed

text \<open>
  C3. The claim fails: the loader validates nothing but the resort key, and answers an
  unknown key with an exception. On a fresh loader, \<open>('invalid_resort', -1, 0)\<close>
  rejects with \<open>Unknown resort: invalid_resort\<close>, after the cache has been read;
  \<open>('chamonix', -1, 2000)\<close> resolves to the one-sample grid \<open>[0]\<close> and caches it;
  \<open>('chamonix', 64, 0)\<close> and \<open>('chamonix', 1025, 20000)\<close> resolve to grids of
  \<open>4096\<close> and \<open>1050625\<close> samples. None of them resolves to \<open>null\<close>.
\<close>

theorem invalid_input_is_not_answered_with_null:
  "topo_fetchElevationData env random new_loader ''invalid_resort'' (-1) 0
     = (Inl (Error ''Unknown resort: invalid_resort''), new_loader)
   \<and> fetch_pipeline parse gen requestId es post info c random new_loader ''chamonix'' (-1) 2000
     = (Inr [Val 0],
        \<lparr>cache = [(''chamonix_-1_2000'', [Val 0])], mcpClient = True,
         mcp_calls = [(''chamonix'', -1, 2000)]\<rparr>)
   \<and> (\<exists>g. fst (fetch_pipeline parse gen requestId es post info c random new_loader
                   ''chamonix'' 64 0) = Inr g \<and> length g = 4096)
   \<and> (\<exists>g. fst (fetch_pipeline parse gen requestId es post info c random new_loader
                   ''chamonix'' 1025 20000) = Inr g \<and> length g = 1050625)"
proof (intro conjI)
  show "topo_fetchElevationData env random new_loader ''invalid_resort'' (-1) 0
     = (Inl (Error ''Unknown resort: invalid_resort''), new_loader)"
    by (simp add: topo_fetchElevationData_def new_loader_def Map_get_def
          resortCoordinates_get_def resortCoordinates_def Object_prototype_keys_def)
  show "fetch_pipeline parse gen requestId es post info c random new_loader ''chamonix'' (-1) 2000
     = (Inr [Val 0],
        \<lparr>cache = [(''chamonix_-1_2000'', [Val 0])], mcpClient = True,
         mcp_calls = [(''chamonix'', -1, 2000)]\<rparr>)"
    by (simp add: pipeline_is_synthetic chamonix_found cacheKey_chamonix_minus1 new_loader_def Map_get_def
          Let_def generate_neg)
  show "\<exists>g. fst (fetch_pipeline parse gen requestId es post info c random new_loader
                   ''chamonix'' 64 0) = Inr g \<and> length g = 4096"
    by (simp add: pipeline_is_synthetic chamonix_found new_loader_def Map_get_def
          Let_def generate_length)
  show "\<exists>g. fst (fetch_pipeline parse gen requestId es post info c random new_loader
                   ''chamonix'' 1025 20000) = Inr g \<and> length g = 1050625"
    by (simp add: pipeline_is_synthetic chamonix_found new_loader_def Map_get_def
          Let_def generate_length)
qed

text \<open>
  C4. The claim fails on the metadata path. The POST of the grid request ends with HTTP
  status 500 and the \<open>get_resort_info\<close> request succeeds with a resort description.
  \<open>handleResortInfo\<close> calls \<open>this.generateSyntheticElevation\<close>, which the class does
  not define; the TypeError is caught and the method returns \<open>null\<close>, whatever such a
  method would compute (\<open>gen\<close>). \<open>bridgeToHttpServer\<close> and the client return
  \<open>null\<close>, and the grid that the loader returns and caches is generated from the
  loader's own table of profiles: the description sent by the server is not used.
\<close>

theorem metadata_profile_is_unused:
  "handleResortInfo example_parse gen (rpc_result ''info'') ''chamonix'' = JNull
   \<and> fst (bridge_finish example_parse gen ''req_1'' (Response False 500 None) (rpc_result ''info'')
            ''chamonix'' c) = JNull
   \<and> fst (mcp_fetchElevationData example_parse gen ''req_1'' es (Response False 500 None)
            (rpc_result ''info'') c ''chamonix'' 2 2000) = Inr None
   \<and> fetch_pipeline example_parse gen ''req_1'' es (Response False 500 None) (rpc_result ''info'') c
        random new_loader ''chamonix'' 2 2000
     = (Inr (generateSyntheticElevationData random (resortCoordinates_get ''chamonix'') 2 2000),
        \<lparr>cache = [(''chamonix_2_2000'',
                    generateSyntheticElevationData random (resortCoordinates_get ''chamonix'') 2 2000)],
         mcpClient = True, mcp_calls = [(''chamonix'', 2, 2000)]\<rparr>)"
proof (intro conjI)
  show "handleResortInfo example_parse gen (rpc_result ''info'') ''chamonix'' = JNull"
    by (rule handleResortInfo_null)
  show "fst (bridge_finish example_parse gen ''req_1'' (Response False 500 None) (rpc_result ''info'')
            ''chamonix'' c) = JNull"
    by (simp add: bridge_finish_def bridge_try_def handleResortInfo_null)
  show "fst (mcp_fetchElevationData example_parse gen ''req_1'' es (Response False 500 None)
            (rpc_result ''info'') c ''chamonix'' 2 2000) = Inr None"
    by (rule mcp_fetch_null)
  show "fetch_pipeline example_parse gen ''req_1'' es (Response False 500 None) (rpc_result ''info'') c
        random new_loader ''chamonix'' 2 2000
     = (Inr (generateSyntheticElevationData random (resortCoordinates_get ''chamonix'') 2 2000),
        \<lparr>cache = [(''chamonix_2_2000'',
                    generateSyntheticElevationData random (resortCoordinates_get ''chamonix'') 2 2000)],
         mcpClient = True, mcp_calls = [(''chamonix'', 2, 2000)]\<rparr>)"
    by (simp add: pipeline_is_synthetic chamonix_found cacheKey_chamonix_2 new_loader_def Map_get_def Let_def)
qed



text \<open>
  C9. The claim fails: the cache has no capacity and nothing is ever evicted. Eleven
  requests for \<open>chamonix\<close> at the resolutions 2 to 12 on a fresh loader leave eleven
  entries in the cache, the oldest first, whatever the server answers; the repository's
  own test expects at most ten.
\<close>

theorem cache_is_never_evicted:
  "map fst (cache (fold (\<lambda>resolution st.
              snd (fetch_pipeline parse gen requestId es post info c random st
                     ''chamonix'' resolution 2000))
            [2, 3, 4, 5, 6, 7, 8, 9, 10, 11, 12] new_loader))
   = [''chamonix_2_2000'', ''chamonix_3_2000'', ''chamonix_4_2000'', ''chamonix_5_2000'',
      ''chamonix_6_2000'', ''chamonix_7_2000'', ''chamonix_8_2000'', ''chamonix_9_2000'',
      ''chamonix_10_2000'', ''chamonix_11_2000'', ''chamonix_12_2000'']
   \<and> Map_size (cache (fold (\<lambda>resolution st.
              snd (fetch_pipeline parse gen requestId es post info c random st
                     ''chamonix'' resolution 2000))
            [2, 3, 4, 5, 6, 7, 8, 9, 10, 11, 12] new_loader)) = 11"
proof -
  define st where "st = fold (\<lambda>resolution st.
              snd (fetch_pipeline parse gen requestId es post info c random st
                     ''chamonix'' resolution 2000))
            [2, 3, 4, 5, 6, 7, 8, 9, 10, 11, 12] new_loader"
  have keys: "map (\<lambda>r. cacheKey ''chamonix'' r 2000) [2, 3, 4, 5, 6, 7, 8, 9, 10, 11, 12]
     = [''chamonix_2_2000'', ''chamonix_3_2000'', ''chamonix_4_2000'', ''chamonix_5_2000'',
      ''chamonix_6_2000'', ''chamonix_7_2000'', ''chamonix_8_2000'', ''chamonix_9_2000'',
      ''chamonix_10_2000'', ''chamonix_11_2000'', ''chamonix_12_2000'']"
    by (simp add: cacheKey_def Number_toString_def)
  have d: "distinct (map (\<lambda>r. cacheKey ''chamonix'' r 2000) [2, 3, 4, 5, 6, 7, 8, 9, 10, 11, 12])"
    unfolding keys by simp
  have e: "\<forall>r \<in> set [2, 3, 4, 5, 6, 7, 8, 9, 10, 11, 12].
             cacheKey ''chamonix'' r 2000 \<notin> fst ` set (cache new_loader)"
    by (simp add: new_loader_def)
  have m0: "map fst (cache st) = map fst (cache new_loader)
              @ map (\<lambda>r. cacheKey ''chamonix'' r 2000) [2, 3, 4, 5, 6, 7, 8, 9, 10, 11, 12]"
    unfolding st_def using chamonix_known d e by (rule fold_fetch_keys)
  have m: "map fst (cache st) = [''chamonix_2_2000'', ''chamonix_3_2000'', ''chamonix_4_2000'', ''chamonix_5_2000'',
      ''chamonix_6_2000'', ''chamonix_7_2000'', ''chamonix_8_2000'', ''chamonix_9_2000'',
      ''chamonix_10_2000'', ''chamonix_11_2000'', ''chamonix_12_2000'']"
    using m0 unfolding keys by (simp add: new_loader_def)
  have "length (map fst (cache st)) = 11" unfolding m by simp
  then have sz: "Map_size (cache st) = 11" by (simp add: Map_size_def)
  show ?thesis
    by (rule conjI) (rule m [unfolded st_def], rule sz [unfolded st_def])
qed



section \<open>Further properties\<close>

text \<open>
  \<open>MCPElevationClient.fetchElevationData\<close> resolves to \<open>null\<close> for every answer of
  the server and every interleaving of the poll loop: no value that \<open>bridgeToHttpServer\<close>
  returns has a property \<open>elevation_data\<close>.
\<close>

theorem client_never_returns_a_grid:
  "fst (mcp_fetchElevationData parse gen requestId es post info c resortKey resolution areaSize)
     = Inr None"
  by (rule mcp_fetch_null)

text \<open>
  The grid of \<open>generateSyntheticElevationData\<close> in closed form, for a resolution that
  is not negative: sample \<open>i\<close> is the height of the cell in column \<open>i mod resolution\<close>
  and row \<open>i div resolution\<close>, computed with the \<open>i\<close>-th random draw.
\<close>

theorem synthetic_grid_closed_form:
  assumes "0 \<le> resolution"
  shows "generateSyntheticElevationData random resort resolution areaSize
         = map (\<lambda>i. cell_height (profile_of resort) resolution
                        (i mod nat resolution) (i div nat resolution) (random i))
               [0..<nat resolution * nat resolution]"
  using assms by (rule generate_closed_form)

theorem synthetic_grid_closed_form_witness:
  "generateSyntheticElevationData (\<lambda>i. 0) (resortCoordinates_get ''zermatt'') 2 2000
   = map (\<lambda>i. cell_height (profile_of (resortCoordinates_get ''zermatt'')) 2
                  (i mod 2) (i div 2) 0)
         [0..<4]"
proof -
  have "(0::int) \<le> 2" by simp
  then show ?thesis
    using synthetic_grid_closed_form [of 2 "\<lambda>i. 0" "resortCoordinates_get ''zermatt''" 2000]
    by simp
qed

text \<open>
  A poll loop sends at most \<open>maxPolls + 1 = 601\<close> status queries for its request id,
  whatever the progress endpoint answers and whether or not the flag is ever set.
\<close>

theorem poll_budget:
  assumes "status_queries requestId c = 0"
  shows "status_queries requestId (run es (bridge_begin requestId c)) \<le> 601"
proof -
  have "poll_inv (pollers (bridge_begin requestId c) requestId)
          (status_queries requestId (bridge_begin requestId c))"
    using assms by (simp add: bridge_begin_def pollProgress_def status_queries_def)
  then have "poll_inv (pollers (run es (bridge_begin requestId c)) requestId)
          (status_queries requestId (run es (bridge_begin requestId c)))"
    by (rule run_poll_inv)
  then have "status_queries requestId (run es (bridge_begin requestId c)) \<le> maxPolls + 1"
    by (rule poll_inv_bound)
  then show ?thesis by (simp add: maxPolls_def)
qed

theorem poll_budget_witness:
  "status_queries ''req_1''
     (run [Timer ''req_1'', Reply ''req_1'' ProgressNotOk, Timer ''req_1'']
        (bridge_begin ''req_1'' new_client)) \<le> 601"
proof -
  have "status_queries ''req_1'' new_client = 0"
    by (simp add: status_queries_def new_client_def)
  then show ?thesis by (rule poll_budget)
qed

end
